theory Spec2Isabelle
  imports Complex_Main "HOL-Library.AList"
begin

section \<open>JavaScript values and strings\<close>

text \<open>
  A JavaScript string is modelled as the list of its code units; the model covers text
  whose code units are below 256, one \<^typ>\<open>char\<close> each.

  The parser stores strings, the boolean \<open>true\<close> (an INFO flag without a value),
  \<open>null\<close> and \<open>undefined\<close> in the same fields. The knowledge-base tables are plain
  objects, so a lookup with a key such as \<open>constructor\<close> finds the property of that name
  inherited from \<open>Object.prototype\<close>: \<open>Inherited k\<close> stands for that value (a built-in
  function, or the prototype object itself for \<open>__proto__\<close>). It is truthy and it is
  not a string.
\<close>

datatype jsval = Undefined | Null | JTrue | Str string | Inherited string

datatype jserror = TypeError

definition objectPrototypeKeys :: "string list" where
  "objectPrototypeKeys =
     [''constructor'', ''__defineGetter__'', ''__defineSetter__'', ''hasOwnProperty'',
      ''__lookupGetter__'', ''__lookupSetter__'', ''isPrototypeOf'',
      ''propertyIsEnumerable'', ''toString'', ''valueOf'', ''__proto__'',
      ''toLocaleString'']"

fun truthy :: "jsval \<Rightarrow> bool" where
  "truthy Undefined = False"
| "truthy Null = False"
| "truthy JTrue = True"
| "truthy (Str s) = (s \<noteq> [])"
| "truthy (Inherited k) = True"

definition jsOr :: "jsval \<Rightarrow> jsval \<Rightarrow> jsval" where
  \<comment> \<open>\<open>a || b\<close>\<close>
  "jsOr a b = (if truthy a then a else b)"

fun toStr :: "jsval \<Rightarrow> string" where
  \<comment> \<open>string conversion, as in a template literal or a property key\<close>
  "toStr Undefined = ''undefined''"
| "toStr Null = ''null''"
| "toStr JTrue = ''true''"
| "toStr (Str s) = s"
| "toStr (Inherited k) =
     (if k = ''__proto__'' then ''[object Object]''
      else ''function '' @ (if k = ''constructor'' then ''Object'' else k)
             @ ''() { [native code] }'')"

definition isWhiteSpace :: "char \<Rightarrow> bool" where
  \<comment> \<open>the white space and line terminators below 256 that \<open>trim\<close> removes\<close>
  "isWhiteSpace c =
     (c \<in> {CHR 0x09, CHR 0x0A, CHR 0x0B, CHR 0x0C, CHR 0x0D, CHR 0x20, CHR 0xA0})"

definition trim :: "string \<Rightarrow> string" where
  "trim s = rev (dropWhile isWhiteSpace (rev (dropWhile isWhiteSpace s)))"

definition lowerChar :: "char \<Rightarrow> char" where
  "lowerChar c =
     (let n = (of_char c :: nat)
      in if (65 \<le> n \<and> n \<le> 90) \<or> (192 \<le> n \<and> n \<le> 222 \<and> n \<noteq> 215)
         then char_of (n + 32) else c)"

definition toLowerCase :: "string \<Rightarrow> string" where
  "toLowerCase s = map lowerChar s"

definition startsWith :: "string \<Rightarrow> string \<Rightarrow> bool" where
  "startsWith s p = (take (length p) s = p)"

fun includesStr :: "string \<Rightarrow> string \<Rightarrow> bool" where
  \<comment> \<open>\<open>s.includes(p)\<close>\<close>
  "includesStr [] p = (p = [])"
| "includesStr (c # s) p = (startsWith (c # s) p \<or> includesStr s p)"

fun splitOn :: "char \<Rightarrow> string \<Rightarrow> string list" where
  \<comment> \<open>\<open>s.split(c)\<close> for a separator of one character\<close>
  "splitOn c [] = [[]]"
| "splitOn c (x # xs) =
     (if x = c then [] # splitOn c xs
      else (let r = splitOn c xs in (x # hd r) # tl r))"

fun indexOf :: "'a list \<Rightarrow> 'a \<Rightarrow> nat option" where
  \<comment> \<open>\<open>indexOf\<close>, with \<open>None\<close> for -1\<close>
  "indexOf [] y = None"
| "indexOf (x # xs) y =
     (if x = y then Some 0 else map_option Suc (indexOf xs y))"

section \<open>The knowledge base\<close>

definition ALLELE_FUNCTIONS :: "(string \<times> (string \<times> string) list) list" where
  "ALLELE_FUNCTIONS =
    [(''CYP2D6'',
       [(''*1'', ''Normal Function''), (''*2'', ''Normal Function''),
        (''*3'', ''No Function''), (''*4'', ''No Function''),
        (''*5'', ''No Function''), (''*6'', ''No Function''),
        (''*9'', ''Decreased Function''), (''*10'', ''Decreased Function''),
        (''*17'', ''Decreased Function''), (''*41'', ''Decreased Function''),
        (''*1xN'', ''Increased Function''), (''*2xN'', ''Increased Function'')]),
     (''CYP2C19'',
       [(''*1'', ''Normal Function''), (''*2'', ''No Function''),
        (''*3'', ''No Function''), (''*4'', ''No Function''),
        (''*17'', ''Increased Function'')]),
     (''CYP2C9'',
       [(''*1'', ''Normal Function''), (''*2'', ''Decreased Function''),
        (''*3'', ''Decreased Function'')]),
     (''SLCO1B1'',
       [(''*1a'', ''Normal Function''), (''*1b'', ''Normal Function''),
        (''*5'', ''Decreased Function''), (''*15'', ''Decreased Function''),
        (''*17'', ''Decreased Function'')]),
     (''TPMT'',
       [(''*1'', ''Normal Function''), (''*2'', ''No Function''),
        (''*3A'', ''No Function''), (''*3B'', ''No Function''),
        (''*3C'', ''No Function'')]),
     (''DPYD'',
       [(''Reference'', ''Normal Function''), (''*2A'', ''No Function''),
        (''*13'', ''No Function''), (''c.2846A>T'', ''Decreased Function''),
        (''c.1129-5923C>G'', ''Decreased Function'')])]"

definition alleleFunction :: "string \<Rightarrow> jsval \<Rightarrow> string option" where
  \<comment> \<open>\<open>ALLELE_FUNCTIONS[gene]?.[allele]\<close> when it is an entry of the table. Every other
      value the lookup can reach (through the prototype chain) is none of the four
      function names, and \<open>getAlleleScore\<close> answers 1.0 for it as for a missing entry.\<close>
  "alleleFunction gene allele =
     (case map_of ALLELE_FUNCTIONS gene of
        None \<Rightarrow> None
      | Some table \<Rightarrow> map_of table (toStr allele))"

definition getAlleleScore :: "string \<Rightarrow> jsval \<Rightarrow> rat" where
  "getAlleleScore gene allele =
     (case alleleFunction gene allele of
        None \<Rightarrow> 1
      | Some func \<Rightarrow>
          if func = ''No Function'' then 0
          else if func = ''Decreased Function'' then 1 / 2
          else if func = ''Normal Function'' then 1
          else if func = ''Increased Function'' then 3 / 2
          else 1)"

datatype phenotype =
    PoorMetabolizer | IntermediateMetabolizer | NormalMetabolizer
  | RapidMetabolizer | UltraRapidMetabolizer

fun phenotypeName :: "phenotype \<Rightarrow> string" where
  "phenotypeName PoorMetabolizer = ''Poor Metabolizer''"
| "phenotypeName IntermediateMetabolizer = ''Intermediate Metabolizer''"
| "phenotypeName NormalMetabolizer = ''Normal Metabolizer''"
| "phenotypeName RapidMetabolizer = ''Rapid Metabolizer''"
| "phenotypeName UltraRapidMetabolizer = ''Ultra-Rapid Metabolizer''"

fun abbreviationOf :: "phenotype \<Rightarrow> string" where
  "abbreviationOf PoorMetabolizer = ''PM''"
| "abbreviationOf IntermediateMetabolizer = ''IM''"
| "abbreviationOf NormalMetabolizer = ''NM''"
| "abbreviationOf RapidMetabolizer = ''RM''"
| "abbreviationOf UltraRapidMetabolizer = ''URM''"

fun phenotypeRank :: "phenotype \<Rightarrow> nat" where
  \<comment> \<open>the order of the categories, from slowest to fastest metabolism\<close>
  "phenotypeRank PoorMetabolizer = 0"
| "phenotypeRank IntermediateMetabolizer = 1"
| "phenotypeRank NormalMetabolizer = 2"
| "phenotypeRank RapidMetabolizer = 3"
| "phenotypeRank UltraRapidMetabolizer = 4"

record phenotypeResult =
  diplotype :: string
  phenotype :: phenotype
  abbrev :: string
  activityScore :: rat

definition getPhenotype :: "string \<Rightarrow> jsval \<Rightarrow> jsval \<Rightarrow> phenotypeResult" where
  "getPhenotype gene allele1 allele2 =
     (let score = getAlleleScore gene allele1 + getAlleleScore gene allele2;
          diplotype = toStr allele1 @ ''/'' @ toStr allele2;
          phenotype =
            (if score = 0 then PoorMetabolizer
             else if score \<le> 1 then IntermediateMetabolizer
             else if score \<le> 2 then NormalMetabolizer
             else if score \<le> 5 / 2 then RapidMetabolizer
             else UltraRapidMetabolizer)
      in \<lparr>diplotype = diplotype, phenotype = phenotype,
          abbrev = abbreviationOf phenotype, activityScore = score\<rparr>)"

record riskRule =
  risk :: string
  severity :: string
  confidence :: rat

record drugRule =
  ruleGene :: string
  ruleDescription :: string
  rules :: "(string \<times> riskRule) list"

text \<open>
  The drug-gene rules. The four narrative fields of a rule (\<open>recommendation\<close>,
  \<open>dosageAdvice\<close>, \<open>alternatives\<close>, \<open>mechanism\<close>) are text that the risk engine
  copies into its result without reading it; they are left out of \<^typ>\<open>riskRule\<close>
  and of the result. A confidence such as \<open>0.95\<close> is the rational 95/100.
\<close>

definition DRUG_GENE_RULES :: "(string \<times> drugRule) list" where
  "DRUG_GENE_RULES =
    [(''Codeine'',
       \<lparr>ruleGene = ''CYP2D6'',
        ruleDescription =
          ''CYP2D6 metabolizes codeine to its active form morphine'',
        rules =
         [(''PM'', \<lparr>risk = ''Ineffective'', severity = ''High'', confidence = 95 / 100\<rparr>),
          (''IM'', \<lparr>risk = ''Ineffective'', severity = ''Moderate'', confidence = 85 / 100\<rparr>),
          (''NM'', \<lparr>risk = ''Safe'', severity = ''Low'', confidence = 90 / 100\<rparr>),
          (''RM'', \<lparr>risk = ''Toxic'', severity = ''High'', confidence = 90 / 100\<rparr>),
          (''URM'', \<lparr>risk = ''Toxic'', severity = ''Critical'', confidence = 95 / 100\<rparr>)]\<rparr>),
     (''Warfarin'',
       \<lparr>ruleGene = ''CYP2C9'',
        ruleDescription =
          ''CYP2C9 metabolizes S-warfarin, the more potent enantiomer'',
        rules =
         [(''PM'', \<lparr>risk = ''Toxic'', severity = ''Critical'', confidence = 92 / 100\<rparr>),
          (''IM'', \<lparr>risk = ''Adjust Dosage'', severity = ''Moderate'', confidence = 88 / 100\<rparr>),
          (''NM'', \<lparr>risk = ''Safe'', severity = ''Low'', confidence = 90 / 100\<rparr>),
          (''RM'', \<lparr>risk = ''Adjust Dosage'', severity = ''Moderate'', confidence = 80 / 100\<rparr>),
          (''URM'', \<lparr>risk = ''Ineffective'', severity = ''High'', confidence = 82 / 100\<rparr>)]\<rparr>),
     (''Clopidogrel'',
       \<lparr>ruleGene = ''CYP2C19'',
        ruleDescription =
          ''CYP2C19 activates clopidogrel from prodrug to active metabolite'',
        rules =
         [(''PM'', \<lparr>risk = ''Ineffective'', severity = ''Critical'', confidence = 93 / 100\<rparr>),
          (''IM'', \<lparr>risk = ''Adjust Dosage'', severity = ''High'', confidence = 87 / 100\<rparr>),
          (''NM'', \<lparr>risk = ''Safe'', severity = ''Low'', confidence = 90 / 100\<rparr>),
          (''RM'', \<lparr>risk = ''Safe'', severity = ''Low'', confidence = 88 / 100\<rparr>),
          (''URM'', \<lparr>risk = ''Adjust Dosage'', severity = ''Moderate'', confidence = 78 / 100\<rparr>)]\<rparr>),
     (''Simvastatin'',
       \<lparr>ruleGene = ''SLCO1B1'',
        ruleDescription =
          ''SLCO1B1 transports simvastatin acid into hepatocytes for metabolism'',
        rules =
         [(''PM'', \<lparr>risk = ''Toxic'', severity = ''Critical'', confidence = 91 / 100\<rparr>),
          (''IM'', \<lparr>risk = ''Adjust Dosage'', severity = ''High'', confidence = 88 / 100\<rparr>),
          (''NM'', \<lparr>risk = ''Safe'', severity = ''Low'', confidence = 90 / 100\<rparr>),
          (''RM'', \<lparr>risk = ''Safe'', severity = ''Low'', confidence = 85 / 100\<rparr>),
          (''URM'', \<lparr>risk = ''Safe'', severity = ''Low'', confidence = 80 / 100\<rparr>)]\<rparr>),
     (''Azathioprine'',
       \<lparr>ruleGene = ''TPMT'',
        ruleDescription =
          ''TPMT methylates thiopurine drugs; reduced activity causes toxic metabolite accumulation'',
        rules =
         [(''PM'', \<lparr>risk = ''Toxic'', severity = ''Critical'', confidence = 95 / 100\<rparr>),
          (''IM'', \<lparr>risk = ''Adjust Dosage'', severity = ''High'', confidence = 90 / 100\<rparr>),
          (''NM'', \<lparr>risk = ''Safe'', severity = ''Low'', confidence = 90 / 100\<rparr>),
          (''RM'', \<lparr>risk = ''Adjust Dosage'', severity = ''Moderate'', confidence = 78 / 100\<rparr>),
          (''URM'', \<lparr>risk = ''Ineffective'', severity = ''High'', confidence = 80 / 100\<rparr>)]\<rparr>),
     (''Fluorouracil'',
       \<lparr>ruleGene = ''DPYD'',
        ruleDescription =
          ''DPD (encoded by DPYD) catabolizes >80% of administered fluorouracil'',
        rules =
         [(''PM'', \<lparr>risk = ''Toxic'', severity = ''Critical'', confidence = 95 / 100\<rparr>),
          (''IM'', \<lparr>risk = ''Adjust Dosage'', severity = ''Critical'', confidence = 92 / 100\<rparr>),
          (''NM'', \<lparr>risk = ''Safe'', severity = ''Low'', confidence = 90 / 100\<rparr>),
          (''RM'', \<lparr>risk = ''Safe'', severity = ''Low'', confidence = 82 / 100\<rparr>),
          (''URM'', \<lparr>risk = ''Ineffective'', severity = ''High'', confidence = 78 / 100\<rparr>)]\<rparr>)]"

definition RSID_MAP :: "(string \<times> (string \<times> string)) list" where
  \<comment> \<open>identifier, then gene and allele\<close>
  "RSID_MAP =
    [(''rs3892097'', (''CYP2D6'', ''*4'')),
     (''rs5030655'', (''CYP2D6'', ''*6'')),
     (''rs1065852'', (''CYP2D6'', ''*10'')),
     (''rs28371706'', (''CYP2D6'', ''*17'')),
     (''rs28371725'', (''CYP2D6'', ''*41'')),
     (''rs4244285'', (''CYP2C19'', ''*2'')),
     (''rs4986893'', (''CYP2C19'', ''*3'')),
     (''rs12248560'', (''CYP2C19'', ''*17'')),
     (''rs1799853'', (''CYP2C9'', ''*2'')),
     (''rs1057910'', (''CYP2C9'', ''*3'')),
     (''rs4149056'', (''SLCO1B1'', ''*5'')),
     (''rs2306283'', (''SLCO1B1'', ''*1b'')),
     (''rs1800460'', (''TPMT'', ''*3B'')),
     (''rs1142345'', (''TPMT'', ''*3C'')),
     (''rs1800462'', (''TPMT'', ''*2'')),
     (''rs3918290'', (''DPYD'', ''*2A'')),
     (''rs55886062'', (''DPYD'', ''*13'')),
     (''rs67376798'', (''DPYD'', ''c.2846A>T'')),
     (''rs75017182'', (''DPYD'', ''c.1129-5923C>G''))]"

definition SUPPORTED_DRUGS :: "string list" where
  "SUPPORTED_DRUGS =
     [''Codeine'', ''Warfarin'', ''Clopidogrel'', ''Simvastatin'', ''Azathioprine'',
      ''Fluorouracil'']"

definition SUPPORTED_GENES :: "string list" where
  "SUPPORTED_GENES = [''CYP2D6'', ''CYP2C19'', ''CYP2C9'', ''SLCO1B1'', ''TPMT'', ''DPYD'']"

definition DEFAULT_ALLELES :: "(string \<times> string) list" where
  "DEFAULT_ALLELES =
     [(''CYP2D6'', ''*1''), (''CYP2C19'', ''*1''), (''CYP2C9'', ''*1''),
      (''SLCO1B1'', ''*1a''), (''TPMT'', ''*1''), (''DPYD'', ''Reference'')]"

section \<open>Variant records\<close>

datatype zygosity = HomozygousReference | HomozygousAlternate | Heterozygous | Unknown

fun zygosityName :: "zygosity \<Rightarrow> string" where
  "zygosityName HomozygousReference = ''Homozygous Reference''"
| "zygosityName HomozygousAlternate = ''Homozygous Alternate''"
| "zygosityName Heterozygous = ''Heterozygous''"
| "zygosityName Unknown = ''Unknown''"

text \<open>
  A variant as the parser builds it. \<open>position\<close> and \<open>quality\<close> hold the text of
  their columns, of which the source keeps \<open>parseInt\<close> and \<open>parseFloat\<close> (\<open>None\<close> is
  the \<open>null\<close> stored for a quality of \<open>.\<close>); no claim reads them.
\<close>

record variant =
  chromosome :: string
  position :: string
  rsid :: jsval
  reference :: string
  alternate :: string
  quality :: "string option"
  filterStatus :: string
  gene :: jsval
  starAllele :: jsval
  info :: "(string \<times> jsval) list"
  zygosity :: zygosity

section \<open>The risk engine\<close>

definition groupStep ::
    "(string \<times> variant list) list \<Rightarrow> variant \<Rightarrow> jserror + (string \<times> variant list) list" where
  \<comment> \<open>One round of the loop of \<open>groupVariantsByGene\<close>. \<open>geneGroups\<close> is a plain object:
      for a key that names a property inherited from \<open>Object.prototype\<close> the test
      \<open>!geneGroups[variant.gene]\<close> is false, no array is created, and the call of
      \<open>push\<close> on the inherited value raises a TypeError.\<close>
  "groupStep geneGroups v =
     (let key = toStr (gene v)
      in if key \<in> set objectPrototypeKeys then Inl TypeError
         else Inr (AList.update key
                     ((case map_of geneGroups key of None \<Rightarrow> [] | Some g \<Rightarrow> g) @ [v])
                     geneGroups))"

fun groupLoop ::
    "(string \<times> variant list) list \<Rightarrow> variant list \<Rightarrow> jserror + (string \<times> variant list) list" where
  "groupLoop geneGroups [] = Inr geneGroups"
| "groupLoop geneGroups (v # vs) =
     (case groupStep geneGroups v of
        Inl e \<Rightarrow> Inl e
      | Inr geneGroups' \<Rightarrow> groupLoop geneGroups' vs)"

definition groupVariantsByGene ::
    "variant list \<Rightarrow> jserror + (string \<times> variant list) list" where
  "groupVariantsByGene variants = groupLoop [] variants"

definition defaultAlleleOf :: "string \<Rightarrow> jsval" where
  \<comment> \<open>\<open>DEFAULT_ALLELES[gene] || '*1'\<close>\<close>
  "defaultAlleleOf g =
     (case map_of DEFAULT_ALLELES g of
        Some a \<Rightarrow> Str a
      | None \<Rightarrow> if g \<in> set objectPrototypeKeys then Inherited g else Str ''*1'')"

text \<open>
  The allele pair. The source also returns a description of each allele
  (\<open>allele1Function\<close>, \<open>allele2Function\<close>), text for display that nothing computes
  with; it is left out.
\<close>

record alleles =
  allele1 :: jsval
  allele2 :: jsval

definition determineAlleles :: "string \<Rightarrow> variant list \<Rightarrow> alleles" where
  "determineAlleles g vs =
     (let defaultAllele = defaultAlleleOf g
      in case vs of
           [] \<Rightarrow> \<lparr>allele1 = defaultAllele, allele2 = defaultAllele\<rparr>
         | primaryVariant # others \<Rightarrow>
             (let (a1, a2) =
                    (if zygosity primaryVariant = HomozygousAlternate
                     then (jsOr (starAllele primaryVariant) defaultAllele,
                           jsOr (starAllele primaryVariant) defaultAllele)
                     else if zygosity primaryVariant = Heterozygous
                     then (defaultAllele, jsOr (starAllele primaryVariant) defaultAllele)
                     else (defaultAllele,
                           (case others of
                              [] \<Rightarrow> defaultAllele
                            | second # _ \<Rightarrow> jsOr (starAllele second) defaultAllele)));
                  a2' =
                    (case others of
                       [] \<Rightarrow> a2
                     | second # _ \<Rightarrow>
                         if zygosity primaryVariant = Heterozygous
                         then jsOr (starAllele second) a2 else a2)
              in \<lparr>allele1 = a1, allele2 = a2'\<rparr>))"

definition normalizeDrugName :: "string \<Rightarrow> string option" where
  "normalizeDrugName name =
     (let normalized = toLowerCase (trim name)
      in find (\<lambda>d. toLowerCase d = normalized) SUPPORTED_DRUGS)"

record detectedVariant =
  vRsid :: jsval
  vChromosome :: string
  vPosition :: string
  vReference :: string
  vAlternate :: string
  vStarAllele :: jsval
  vZygosity :: zygosity

definition detected :: "variant \<Rightarrow> detectedVariant" where
  "detected v =
     \<lparr>vRsid = rsid v, vChromosome = chromosome v, vPosition = position v,
      vReference = reference v, vAlternate = alternate v, vStarAllele = starAllele v,
      vZygosity = zygosity v\<rparr>"

text \<open>
  One entry of the result. For an unsupported drug the source pushes an object with
  \<open>drug\<close>, \<open>error\<close>, \<open>risk\<close>, \<open>severity\<close> and \<open>confidence\<close>. Otherwise the entry
  carries the drug, gene and description, the gene's variants, the profile (the
  phenotype result and the allele pair) and the risk assessment (the fields of the
  rule that was found).
\<close>

record errorEntry =
  errorDrug :: string
  error :: string
  errorRisk :: string
  errorSeverity :: string
  errorConfidence :: rat

record analysis =
  drug :: string
  analysisGene :: string
  geneDescription :: string
  variants :: "detectedVariant list"
  profile :: phenotypeResult
  profileAlleles :: alleles
  riskAssessment :: riskRule

datatype drugResult = Unsupported errorEntry | Analysed analysis

definition ruleFor :: "drugRule \<Rightarrow> string \<Rightarrow> riskRule option" where
  \<comment> \<open>\<open>rule.rules[abbreviation] || rule.rules['NM']\<close>, \<open>None\<close> for \<open>undefined\<close>\<close>
  "ruleFor rule abbreviation =
     (case map_of (rules rule) abbreviation of
        Some r \<Rightarrow> Some r
      | None \<Rightarrow> map_of (rules rule) ''NM'')"

definition predictDrug ::
    "(string \<times> variant list) list \<Rightarrow> string \<Rightarrow> jserror + drugResult option" where
  \<comment> \<open>One round of the loop of \<open>predictRisks\<close>: \<open>Inr None\<close> when the round ends without
      a push, \<open>Inl TypeError\<close> when no rule is found and \<open>riskRule.risk\<close> is read from
      \<open>undefined\<close>. The keys looked up here (a supported drug, its gene, a phenotype
      abbreviation) never name an inherited property.\<close>
  "predictDrug geneGroups drugName =
     (case normalizeDrugName drugName of
        None \<Rightarrow>
          Inr (Some (Unsupported
            \<lparr>errorDrug = drugName, error = ''Unsupported drug: '' @ drugName,
             errorRisk = ''Unknown'', errorSeverity = ''Unknown'', errorConfidence = 0\<rparr>))
      | Some normalizedDrug \<Rightarrow>
          (case map_of DRUG_GENE_RULES normalizedDrug of
             None \<Rightarrow> Inr None
           | Some rule \<Rightarrow>
               (let g = ruleGene rule;
                    geneVariants = (case map_of geneGroups g of None \<Rightarrow> [] | Some vs \<Rightarrow> vs);
                    als = determineAlleles g geneVariants;
                    phenotypeResult = getPhenotype g (allele1 als) (allele2 als)
                in case ruleFor rule (abbrev phenotypeResult) of
                     None \<Rightarrow> Inl TypeError
                   | Some riskRule \<Rightarrow>
                       Inr (Some (Analysed
                         \<lparr>drug = normalizedDrug, analysisGene = g,
                          geneDescription = ruleDescription rule,
                          variants = map detected geneVariants,
                          profile = phenotypeResult, profileAlleles = als,
                          riskAssessment = riskRule\<rparr>)))))"

fun predictLoop ::
    "(string \<times> variant list) list \<Rightarrow> drugResult list \<Rightarrow> string list
      \<Rightarrow> jserror + drugResult list" where
  "predictLoop geneGroups results [] = Inr results"
| "predictLoop geneGroups results (drugName # drugs) =
     (case predictDrug geneGroups drugName of
        Inl e \<Rightarrow> Inl e
      | Inr None \<Rightarrow> predictLoop geneGroups results drugs
      | Inr (Some entry) \<Rightarrow> predictLoop geneGroups (results @ [entry]) drugs)"

definition predictRisks :: "variant list \<Rightarrow> string list \<Rightarrow> jserror + drugResult list" where
  "predictRisks vs drugs =
     (case groupVariantsByGene vs of
        Inl e \<Rightarrow> Inl e
      | Inr geneGroups \<Rightarrow> predictLoop geneGroups [] drugs)"

section \<open>The VCF parser\<close>

record validation =
  valid :: bool
  errors :: "string list"

definition nonBlankLines :: "string \<Rightarrow> string list" where
  \<comment> \<open>\<open>content.split('\n').filter(l => l.trim())\<close>\<close>
  "nonBlankLines content = filter (\<lambda>l. trim l \<noteq> []) (splitOn (CHR 0x0A) content)"

definition validateVCF :: "string \<Rightarrow> validation" where
  "validateVCF content =
     (let lines = nonBlankLines content
      in if length lines = 0 then \<lparr>valid = False, errors = [''Empty VCF file'']\<rparr>
         else
           (let errors1 =
                  (if \<not> list_ex (\<lambda>l. startsWith l ''##fileformat=VCF'') lines
                   then [''Missing ##fileformat=VCF header. File may not be a valid VCF v4.2 file.'']
                   else []);
                errors2 =
                  (if find (\<lambda>l. startsWith l ''#CHROM'') lines = None
                   then errors1 @ [''Missing #CHROM header line'']
                   else errors1);
                dataLines = filter (\<lambda>l. \<not> startsWith l ''#'') lines;
                errors3 =
                  (if length dataLines = 0
                   then errors2 @ [''No variant data found in VCF file'']
                   else errors2)
            in \<lparr>valid = (length errors3 = 0), errors = errors3\<rparr>))"

definition setProp :: "string \<Rightarrow> jsval \<Rightarrow> (string \<times> jsval) list \<Rightarrow> (string \<times> jsval) list" where
  \<comment> \<open>\<open>info[key] = value\<close> on a plain object, for a string or \<open>true\<close>: the inherited
      setter of \<open>__proto__\<close> ignores such a value and creates no property.\<close>
  "setProp key v obj = (if key = ''__proto__'' then obj else AList.update key v obj)"

definition getProp :: "(string \<times> jsval) list \<Rightarrow> string \<Rightarrow> jsval" where
  \<comment> \<open>\<open>parsedInfo.GENE\<close> and the like, for a key that is not an inherited name\<close>
  "getProp obj key = (case map_of obj key of None \<Rightarrow> Undefined | Some v \<Rightarrow> v)"

definition parseField :: "(string \<times> jsval) list \<Rightarrow> string \<Rightarrow> (string \<times> jsval) list" where
  "parseField parsed field =
     (case indexOf field (CHR ''='') of
        None \<Rightarrow> setProp (trim field) JTrue parsed
      | Some eqIdx \<Rightarrow>
          if eqIdx > 0
          then setProp (trim (take eqIdx field)) (Str (trim (drop (eqIdx + 1) field))) parsed
          else setProp (trim field) JTrue parsed)"

definition parseInfo :: "string \<Rightarrow> (string \<times> jsval) list" where
  "parseInfo infoStr =
     (if infoStr = [] \<or> infoStr = ''.'' then []
      else foldl parseField [] (splitOn (CHR '';'') infoStr))"

definition determineZygosity :: "string list \<Rightarrow> zygosity" where
  "determineZygosity cols =
     (if length cols < 10 then Unknown
      else
        (let format = cols ! 8; sample = cols ! 9
         in if format = [] \<or> sample = [] then Unknown
            else
              (let formatFields = splitOn (CHR '':'') format;
                   sampleFields = splitOn (CHR '':'') sample
               in case indexOf formatFields ''GT'' of
                    None \<Rightarrow> Unknown
                  | Some gtIndex \<Rightarrow>
                      if gtIndex \<ge> length sampleFields then Unknown
                      else
                        (let gt = sampleFields ! gtIndex;
                             separator = (if CHR ''/'' \<in> set gt then CHR ''/'' else CHR ''|'');
                             parts = splitOn separator gt
                         in if length parts \<noteq> 2 then Unknown
                            else if parts ! 0 = parts ! 1
                            then (if parts ! 0 = ''0'' then HomozygousReference
                                  else HomozygousAlternate)
                            else Heterozygous))))"

definition extractVariant :: "string list \<Rightarrow> variant option" where
  \<comment> \<open>What \<open>parseVCF\<close> does with the columns of a data line of at least 8 columns:
      the variant it pushes, or \<open>None\<close> when the record is not taken as relevant.
      \<open>RSID_MAP\<close> is a plain object: for an identifier that names an inherited
      property, \<open>RSID_MAP[rsid]\<close> is truthy and its \<open>gene\<close> and \<open>allele\<close> are
      \<open>undefined\<close>.\<close>
  "extractVariant cols =
     (let parsedInfo = parseInfo (cols ! 7);
          gene0 = jsOr (getProp parsedInfo ''GENE'') Null;
          star = jsOr (getProp parsedInfo ''STAR'') Null;
          rsid0 = jsOr (jsOr (getProp parsedInfo ''RSID'') (Str (cols ! 2))) Null;
          (mappedGene, mappedAllele, isPGx) =
            (if truthy rsid0
             then (case map_of RSID_MAP (toStr rsid0) of
                     Some (mg, ma) \<Rightarrow> (jsOr gene0 (Str mg), jsOr star (Str ma), True)
                   | None \<Rightarrow>
                       if toStr rsid0 \<in> set objectPrototypeKeys
                       then (jsOr gene0 Undefined, jsOr star Undefined, True)
                       else (gene0, star, False))
             else (gene0, star, False));
          isPGx' =
            (isPGx \<or> (truthy mappedGene
                       \<and> (case mappedGene of Str s \<Rightarrow> s \<in> set SUPPORTED_GENES | _ \<Rightarrow> False)))
      in if isPGx' \<and> truthy mappedGene
         then Some
           \<lparr>chromosome = cols ! 0, position = cols ! 1, rsid = rsid0,
            reference = cols ! 3, alternate = cols ! 4,
            quality = (if cols ! 5 \<noteq> ''.'' then Some (cols ! 5) else None),
            filterStatus = cols ! 6, gene = mappedGene, starAllele = mappedAllele,
            info = parsedInfo, zygosity = determineZygosity cols\<rparr>
         else None)"

record metadata =
  fileformat :: string
  source :: string
  totalVariants :: nat
  pharmacogenomicVariants :: nat
  genes :: "jsval list"

record parsed =
  parsedVariants :: "variant list"
  parsedMetadata :: metadata

definition parseLine :: "parsed \<Rightarrow> string \<Rightarrow> parsed" where
  \<comment> \<open>one round of the loop of \<open>parseVCF\<close>\<close>
  "parseLine st line =
     (if startsWith line ''##fileformat=''
      then st\<lparr>parsedMetadata := (parsedMetadata st)\<lparr>fileformat := splitOn (CHR ''='') line ! 1\<rparr>\<rparr>
      else if startsWith line ''##source=''
      then st\<lparr>parsedMetadata := (parsedMetadata st)\<lparr>source := splitOn (CHR ''='') line ! 1\<rparr>\<rparr>
      else if startsWith line ''#'' then st
      else
        (let cols = splitOn (CHR 0x09) line
         in if length cols < 8 then st
            else
              (let md = (parsedMetadata st)\<lparr>totalVariants := totalVariants (parsedMetadata st) + 1\<rparr>
               in case extractVariant cols of
                    None \<Rightarrow> st\<lparr>parsedMetadata := md\<rparr>
                  | Some v \<Rightarrow>
                      \<lparr>parsedVariants = parsedVariants st @ [v],
                       parsedMetadata =
                         md\<lparr>pharmacogenomicVariants := pharmacogenomicVariants md + 1,
                            genes := (if gene v \<in> set (genes md) then genes md
                                      else genes md @ [gene v])\<rparr>\<rparr>)))"

definition parseVCF :: "string \<Rightarrow> parsed" where
  "parseVCF content =
     foldl parseLine
       \<lparr>parsedVariants = [],
        parsedMetadata = \<lparr>fileformat = [], source = [], totalVariants = 0,
                          pharmacogenomicVariants = 0, genes = []\<rparr>\<rparr>
       (nonBlankLines content)"

section \<open>The explanation generator: classification of a variant\<close>

definition getVariantClassification :: "jsval \<Rightarrow> jserror + string" where
  \<comment> \<open>A truthy value that is not a string has no method \<open>includes\<close>: the call raises
      a TypeError.\<close>
  "getVariantClassification allele =
     (if \<not> truthy allele then Inr ''unknown significance''
      else case allele of
             Str a \<Rightarrow>
               if a \<in> set [''*3'', ''*4'', ''*5'', ''*6'', ''*2A'', ''*13'']
                  \<or> includesStr a ''No Function''
               then Inr ''loss-of-function''
               else if a \<in> set [''*9'', ''*10'', ''*17'', ''*41'', ''*2'', ''*3'', ''*5'', ''*15'']
                       \<or> includesStr a ''Decreased''
               then Inr ''decreased-function''
               else if includesStr a ''xN'' \<or> a = ''*17'' then Inr ''gain-of-function''
               else Inr ''functional''
           | _ \<Rightarrow> Inl TypeError)"

section \<open>Activity score and phenotype\<close>

lemma getAlleleScore_cases:
  "getAlleleScore g allele = 0 \<or> getAlleleScore g allele = 1 / 2
   \<or> getAlleleScore g allele = 1 \<or> getAlleleScore g allele = 3 / 2"
  by (simp add: getAlleleScore_def split: option.split)

lemma getAlleleScore_bounds:
  "0 \<le> getAlleleScore g allele \<and> getAlleleScore g allele \<le> 3 / 2"
  using getAlleleScore_cases [of g allele] by auto

lemma activityScore_getPhenotype:
  "activityScore (getPhenotype g a1 a2) = getAlleleScore g a1 + getAlleleScore g a2"
  by (simp add: getPhenotype_def Let_def)

lemma activityScore_nonneg: "0 \<le> activityScore (getPhenotype g a1 a2)"
  using getAlleleScore_bounds [of g a1] getAlleleScore_bounds [of g a2]
  by (simp add: activityScore_getPhenotype)

lemma phenotype_getPhenotype:
  "phenotype (getPhenotype g a1 a2) =
     (let s = activityScore (getPhenotype g a1 a2)
      in if s = 0 then PoorMetabolizer
         else if s \<le> 1 then IntermediateMetabolizer
         else if s \<le> 2 then NormalMetabolizer
         else if s \<le> 5 / 2 then RapidMetabolizer
         else UltraRapidMetabolizer)"
  by (simp add: getPhenotype_def Let_def)

text \<open>
  C9. Whatever the gene and the alleles (in the function table or not), each allele
  contributes 0, 0.5, 1.0 or 1.5 to the activity score; an allele without an entry in
  the g's function table contributes 1.0; and the activity score of the pair lies
  between 0 and 3. The scores are multiples of one half, which JavaScript numbers add
  exactly, so they are modelled as rationals.
\<close>

theorem activity_score_in_range:
  "getAlleleScore g a1 \<in> {0, 1 / 2, 1, 3 / 2}
   \<and> getAlleleScore g a2 \<in> {0, 1 / 2, 1, 3 / 2}
   \<and> (alleleFunction g a1 = None \<longrightarrow> getAlleleScore g a1 = 1)
   \<and> activityScore (getPhenotype g a1 a2) = getAlleleScore g a1 + getAlleleScore g a2
   \<and> 0 \<le> activityScore (getPhenotype g a1 a2)
   \<and> activityScore (getPhenotype g a1 a2) \<le> 3"
proof -
  have range1: "getAlleleScore g a1 \<in> {0, 1 / 2, 1, 3 / 2}"
    using getAlleleScore_cases [of g a1] by auto
  have range2: "getAlleleScore g a2 \<in> {0, 1 / 2, 1, 3 / 2}"
    using getAlleleScore_cases [of g a2] by auto
  have absent: "alleleFunction g a1 = None \<longrightarrow> getAlleleScore g a1 = 1"
    by (simp add: getAlleleScore_def)
  have upper: "activityScore (getPhenotype g a1 a2) \<le> 3"
    using getAlleleScore_bounds [of g a1] getAlleleScore_bounds [of g a2]
    by (simp add: activityScore_getPhenotype)
  show ?thesis
    using range1 range2 absent upper activityScore_nonneg [of g a1 a2]
    by (simp only: activityScore_getPhenotype simp_thms)
qed

theorem activity_score_in_range_witness:
  "alleleFunction ''CYP2D6'' (Str ''*99'') = None
   \<and> getAlleleScore ''CYP2D6'' (Str ''*99'') = 1
   \<and> getAlleleScore ''CYP2D6'' (Str ''*2xN'') = 3 / 2
   \<and> activityScore (getPhenotype ''CYP2D6'' (Str ''*99'') (Str ''*2xN'')) = 5 / 2"
proof -
  have absent: "alleleFunction ''CYP2D6'' (Str ''*99'') = None"
    by (simp add: alleleFunction_def ALLELE_FUNCTIONS_def)
  have other: "getAlleleScore ''CYP2D6'' (Str ''*2xN'') = 3 / 2"
    by (simp add: getAlleleScore_def alleleFunction_def ALLELE_FUNCTIONS_def)
  show ?thesis
    using absent other activity_score_in_range [of "''CYP2D6''" "Str ''*99''" "Str ''*2xN''"]
    by simp
qed

text \<open>
  C2. The phenotype category is read off the activity score alone: 0 gives Poor,
  above 0 up to 1.0 Intermediate, above 1.0 up to 2.0 Normal, above 2.0 up to 2.5 Rapid,
  above 2.5 Ultra-Rapid. Hence two allele pairs (of any genes) with the same score get
  the same category, and a pair with a score at least as high gets a category at least
  as fast.
\<close>

theorem phenotype_by_thresholds:
  "(activityScore (getPhenotype g a1 a2) = 0
      \<longrightarrow> phenotype (getPhenotype g a1 a2) = PoorMetabolizer)
   \<and> (0 < activityScore (getPhenotype g a1 a2)
        \<and> activityScore (getPhenotype g a1 a2) \<le> 1
      \<longrightarrow> phenotype (getPhenotype g a1 a2) = IntermediateMetabolizer)
   \<and> (1 < activityScore (getPhenotype g a1 a2)
        \<and> activityScore (getPhenotype g a1 a2) \<le> 2
      \<longrightarrow> phenotype (getPhenotype g a1 a2) = NormalMetabolizer)
   \<and> (2 < activityScore (getPhenotype g a1 a2)
        \<and> activityScore (getPhenotype g a1 a2) \<le> 5 / 2
      \<longrightarrow> phenotype (getPhenotype g a1 a2) = RapidMetabolizer)
   \<and> (5 / 2 < activityScore (getPhenotype g a1 a2)
      \<longrightarrow> phenotype (getPhenotype g a1 a2) = UltraRapidMetabolizer)
   \<and> (activityScore (getPhenotype g a1 a2) = activityScore (getPhenotype g' b1 b2)
      \<longrightarrow> phenotype (getPhenotype g a1 a2) = phenotype (getPhenotype g' b1 b2))
   \<and> (activityScore (getPhenotype g a1 a2) \<le> activityScore (getPhenotype g' b1 b2)
      \<longrightarrow> phenotypeRank (phenotype (getPhenotype g a1 a2))
            \<le> phenotypeRank (phenotype (getPhenotype g' b1 b2)))"
proof -
  define s where "s = activityScore (getPhenotype g a1 a2)"
  define t where "t = activityScore (getPhenotype g' b1 b2)"
  have s0: "0 \<le> s" and t0: "0 \<le> t"
    by (simp_all add: s_def t_def activityScore_nonneg)
  have ps: "phenotype (getPhenotype g a1 a2) =
      (if s = 0 then PoorMetabolizer
       else if s \<le> 1 then IntermediateMetabolizer
       else if s \<le> 2 then NormalMetabolizer
       else if s \<le> 5 / 2 then RapidMetabolizer
       else UltraRapidMetabolizer)"
    unfolding s_def by (simp add: phenotype_getPhenotype [of g a1 a2] Let_def)
  have pt: "phenotype (getPhenotype g' b1 b2) =
      (if t = 0 then PoorMetabolizer
       else if t \<le> 1 then IntermediateMetabolizer
       else if t \<le> 2 then NormalMetabolizer
       else if t \<le> 5 / 2 then RapidMetabolizer
       else UltraRapidMetabolizer)"
    unfolding t_def by (simp add: phenotype_getPhenotype [of g' b1 b2] Let_def)
  have thresholds:
    "(s = 0 \<longrightarrow> phenotype (getPhenotype g a1 a2) = PoorMetabolizer)
     \<and> (0 < s \<and> s \<le> 1 \<longrightarrow> phenotype (getPhenotype g a1 a2) = IntermediateMetabolizer)
     \<and> (1 < s \<and> s \<le> 2 \<longrightarrow> phenotype (getPhenotype g a1 a2) = NormalMetabolizer)
     \<and> (2 < s \<and> s \<le> 5 / 2 \<longrightarrow> phenotype (getPhenotype g a1 a2) = RapidMetabolizer)
     \<and> (5 / 2 < s \<longrightarrow> phenotype (getPhenotype g a1 a2) = UltraRapidMetabolizer)"
    unfolding ps by auto
  have same: "s = t \<longrightarrow> phenotype (getPhenotype g a1 a2) = phenotype (getPhenotype g' b1 b2)"
    unfolding ps pt by simp
  have mono: "s \<le> t \<longrightarrow> phenotypeRank (phenotype (getPhenotype g a1 a2))
                 \<le> phenotypeRank (phenotype (getPhenotype g' b1 b2))"
    unfolding ps pt using s0 t0 by auto
  show ?thesis
    using thresholds same mono unfolding s_def t_def by blast
qed

theorem phenotype_by_thresholds_witness:
  "activityScore (getPhenotype ''CYP2D6'' (Str ''*4'') (Str ''*10'')) = 1 / 2
   \<and> phenotype (getPhenotype ''CYP2D6'' (Str ''*4'') (Str ''*10'')) = IntermediateMetabolizer
   \<and> activityScore (getPhenotype ''CYP2C19'' (Str ''*1'') (Str ''*17'')) = 5 / 2
   \<and> phenotypeRank (phenotype (getPhenotype ''CYP2D6'' (Str ''*4'') (Str ''*10'')))
        \<le> phenotypeRank (phenotype (getPhenotype ''CYP2C19'' (Str ''*1'') (Str ''*17'')))"
proof -
  have s: "activityScore (getPhenotype ''CYP2D6'' (Str ''*4'') (Str ''*10'')) = 1 / 2"
    by (simp add: activityScore_getPhenotype getAlleleScore_def alleleFunction_def
        ALLELE_FUNCTIONS_def)
  have t: "activityScore (getPhenotype ''CYP2C19'' (Str ''*1'') (Str ''*17'')) = 5 / 2"
    by (simp add: activityScore_getPhenotype getAlleleScore_def alleleFunction_def
        ALLELE_FUNCTIONS_def)
  have range: "0 < activityScore (getPhenotype ''CYP2D6'' (Str ''*4'') (Str ''*10''))
      \<and> activityScore (getPhenotype ''CYP2D6'' (Str ''*4'') (Str ''*10'')) \<le> 1"
    unfolding s by simp
  have le: "activityScore (getPhenotype ''CYP2D6'' (Str ''*4'') (Str ''*10''))
      \<le> activityScore (getPhenotype ''CYP2C19'' (Str ''*1'') (Str ''*17''))"
    unfolding s t by simp
  show ?thesis
    using s t range le
      phenotype_by_thresholds [of "''CYP2D6''" "Str ''*4''" "Str ''*10''"
        "''CYP2C19''" "Str ''*1''" "Str ''*17''"]
    by blast
qed

section \<open>Rule dispatch\<close>

lemma rules_table_checked:
  "list_all (\<lambda>(d, rule).
      list_all (\<lambda>a. case map_of (rules rule) a of
                       None \<Rightarrow> False
                     | Some r \<Rightarrow> 0 \<le> confidence r \<and> confidence r \<le> 1
                         \<and> severity r \<in> set [''Low'', ''Moderate'', ''High'', ''Critical''])
        [''PM'', ''IM'', ''NM'', ''RM'', ''URM'']) DRUG_GENE_RULES"
  by (simp add: DRUG_GENE_RULES_def)

lemma rules_keys: "map fst DRUG_GENE_RULES = SUPPORTED_DRUGS"
  by (simp add: DRUG_GENE_RULES_def SUPPORTED_DRUGS_def)

lemma abbreviationOf_cases:
  "abbreviationOf p \<in> set [''PM'', ''IM'', ''NM'', ''RM'', ''URM'']"
  by (cases p) simp_all

lemma abbrev_getPhenotype:
  "abbrev (getPhenotype g a b) = abbreviationOf (phenotype (getPhenotype g a b))"
  by (simp add: getPhenotype_def Let_def)

lemma normalizeDrugName_supported:
  "normalizeDrugName n = Some d \<Longrightarrow> d \<in> set SUPPORTED_DRUGS"
  by (auto simp: normalizeDrugName_def Let_def find_Some_iff)

lemma rules_complete:
  assumes "d \<in> set SUPPORTED_DRUGS"
  shows "\<exists>rule. map_of DRUG_GENE_RULES d = Some rule
           \<and> (\<forall>p. \<exists>r. map_of (rules rule) (abbreviationOf p) = Some r
                  \<and> 0 \<le> confidence r \<and> confidence r \<le> 1
                  \<and> severity r \<in> set [''Low'', ''Moderate'', ''High'', ''Critical''])"
proof -
  have "set (map fst DRUG_GENE_RULES) = set SUPPORTED_DRUGS"
    by (simp only: rules_keys)
  with assms have "d \<in> fst ` set DRUG_GENE_RULES"
    by simp
  then have "map_of DRUG_GENE_RULES d \<noteq> None"
    by (simp only: map_of_eq_None_iff not_not)
  then obtain rule where found: "map_of DRUG_GENE_RULES d = Some rule"
    by blast
  then have "(d, rule) \<in> set DRUG_GENE_RULES"
    by (rule map_of_SomeD)
  with rules_table_checked
  have entries: "\<forall>a \<in> set [''PM'', ''IM'', ''NM'', ''RM'', ''URM''].
      case map_of (rules rule) a of
        None \<Rightarrow> False
      | Some r \<Rightarrow> 0 \<le> confidence r \<and> confidence r \<le> 1
          \<and> severity r \<in> set [''Low'', ''Moderate'', ''High'', ''Critical'']"
    unfolding list_all_iff by blast
  have "\<exists>r. map_of (rules rule) (abbreviationOf p) = Some r
          \<and> 0 \<le> confidence r \<and> confidence r \<le> 1
          \<and> severity r \<in> set [''Low'', ''Moderate'', ''High'', ''Critical'']" for p
  proof -
    from entries abbreviationOf_cases [of p]
    have "case map_of (rules rule) (abbreviationOf p) of
        None \<Rightarrow> False
      | Some r \<Rightarrow> 0 \<le> confidence r \<and> confidence r \<le> 1
          \<and> severity r \<in> set [''Low'', ''Moderate'', ''High'', ''Critical'']"
      by (rule bspec)
    then show ?thesis
      by (cases "map_of (rules rule) (abbreviationOf p)") simp_all
  qed
  with found show ?thesis by blast
qed

lemma ruleFor_fallback:
  "ruleFor rule a =
     (if map_of (rules rule) a \<noteq> None then map_of (rules rule) a
      else map_of (rules rule) ''NM'')"
  by (simp add: ruleFor_def split: option.split)

lemma predictDrug_unsupported:
  assumes "normalizeDrugName n = None"
  shows "predictDrug geneGroups n =
     Inr (Some (Unsupported
       \<lparr>errorDrug = n, error = ''Unsupported drug: '' @ n, errorRisk = ''Unknown'',
        errorSeverity = ''Unknown'', errorConfidence = 0\<rparr>))"
  using assms by (simp add: predictDrug_def)

lemma predictDrug_supported:
  assumes "normalizeDrugName n = Some d"
  shows "\<exists>a. predictDrug geneGroups n = Inr (Some (Analysed a)) \<and> drug a = d"
proof -
  from assms have "d \<in> set SUPPORTED_DRUGS"
    by (rule normalizeDrugName_supported)
  then obtain rule where found: "map_of DRUG_GENE_RULES d = Some rule"
    and entries: "\<forall>p. \<exists>r. map_of (rules rule) (abbreviationOf p) = Some r
                  \<and> 0 \<le> confidence r \<and> confidence r \<le> 1
                  \<and> severity r \<in> set [''Low'', ''Moderate'', ''High'', ''Critical'']"
    using rules_complete by blast
  define vs where "vs = (case map_of geneGroups (ruleGene rule) of None \<Rightarrow> [] | Some x \<Rightarrow> x)"
  define als where "als = determineAlleles (ruleGene rule) vs"
  define ph where "ph = getPhenotype (ruleGene rule) (allele1 als) (allele2 als)"
  from entries obtain r where "map_of (rules rule) (abbreviationOf (phenotype ph)) = Some r"
    by blast
  then have "ruleFor rule (abbrev ph) = Some r"
    by (simp add: ruleFor_def ph_def abbrev_getPhenotype)
  then show ?thesis
    using assms found
    by (simp add: predictDrug_def Let_def vs_def als_def ph_def)
qed

lemma predictDrug_defined: "\<exists>e. predictDrug geneGroups n = Inr (Some e)"
proof (cases "normalizeDrugName n")
  case None
  then show ?thesis by (simp add: predictDrug_unsupported)
next
  case (Some d)
  then show ?thesis using predictDrug_supported by blast
qed

lemma predictLoop_map:
  "\<forall>n \<in> set ds. predictDrug geneGroups n = Inr (Some (f n))
   \<Longrightarrow> predictLoop geneGroups acc ds = Inr (acc @ map f ds)"
  by (induction ds arbitrary: acc) simp_all

lemma predictRisks_results:
  assumes "groupVariantsByGene vs = Inr geneGroups"
  shows "\<exists>results. predictRisks vs drugs = Inr results
           \<and> length results = length drugs
           \<and> (\<forall>i < length drugs.
                 predictDrug geneGroups (drugs ! i) = Inr (Some (results ! i)))"
proof -
  have "\<forall>n. \<exists>e. predictDrug geneGroups n = Inr (Some e)"
    using predictDrug_defined by blast
  then obtain f where f: "\<forall>n. predictDrug geneGroups n = Inr (Some (f n))"
    using choice [of "\<lambda>n e. predictDrug geneGroups n = Inr (Some e)"] by blast
  then have "predictLoop geneGroups [] drugs = Inr ([] @ map f drugs)"
    by (intro predictLoop_map) simp
  then have "predictRisks vs drugs = Inr (map f drugs)"
    using assms by (simp add: predictRisks_def)
  moreover have "\<forall>i < length drugs.
      predictDrug geneGroups (drugs ! i) = Inr (Some (map f drugs ! i))"
    using f by simp
  ultimately show ?thesis by simp
qed

text \<open>
  C3. For each of the six supported drugs and each of the five phenotype abbreviations,
  the drug has a rule table and the lookup \<open>rules[p] || rules['NM']\<close> finds a rule: it
  is the table's entry for \<open>p\<close> when there is one and the entry for \<open>NM\<close> otherwise.
  The rule's confidence lies between 0 and 1 and its severity is Low, Moderate, High
  or Critical.
\<close>

theorem rule_dispatch_defined:
  assumes "d \<in> set SUPPORTED_DRUGS"
    and "p \<in> set [''PM'', ''IM'', ''NM'', ''RM'', ''URM'']"
  shows "\<exists>rule r. map_of DRUG_GENE_RULES d = Some rule
           \<and> ruleFor rule p = Some r
           \<and> ruleFor rule p =
               (if map_of (rules rule) p \<noteq> None then map_of (rules rule) p
                else map_of (rules rule) ''NM'')
           \<and> 0 \<le> confidence r \<and> confidence r \<le> 1
           \<and> severity r \<in> set [''Low'', ''Moderate'', ''High'', ''Critical'']"
proof -
  from assms(2) obtain ph where p: "p = abbreviationOf ph"
  proof -
    have "p = abbreviationOf PoorMetabolizer \<or> p = abbreviationOf IntermediateMetabolizer
        \<or> p = abbreviationOf NormalMetabolizer \<or> p = abbreviationOf RapidMetabolizer
        \<or> p = abbreviationOf UltraRapidMetabolizer"
      using assms(2) by simp
    then show ?thesis using that by blast
  qed
  from assms(1) obtain rule where found: "map_of DRUG_GENE_RULES d = Some rule"
    and entries: "\<forall>q. \<exists>r. map_of (rules rule) (abbreviationOf q) = Some r
                  \<and> 0 \<le> confidence r \<and> confidence r \<le> 1
                  \<and> severity r \<in> set [''Low'', ''Moderate'', ''High'', ''Critical'']"
    using rules_complete by blast
  from entries obtain r where r: "map_of (rules rule) p = Some r"
    and ok: "0 \<le> confidence r" "confidence r \<le> 1"
      "severity r \<in> set [''Low'', ''Moderate'', ''High'', ''Critical'']"
    unfolding p by blast
  from r have "ruleFor rule p = Some r"
    by (simp add: ruleFor_def)
  with found ok ruleFor_fallback [of rule p] show ?thesis
    by blast
qed

theorem rule_dispatch_defined_witness:
  "''Warfarin'' \<in> set SUPPORTED_DRUGS
   \<and> ''URM'' \<in> set [''PM'', ''IM'', ''NM'', ''RM'', ''URM'']
   \<and> (\<exists>rule r. map_of DRUG_GENE_RULES ''Warfarin'' = Some rule
          \<and> ruleFor rule ''URM'' = Some r
          \<and> 0 \<le> confidence r \<and> confidence r \<le> 1
          \<and> severity r \<in> set [''Low'', ''Moderate'', ''High'', ''Critical''])"
proof -
  have d: "''Warfarin'' \<in> set SUPPORTED_DRUGS"
    by (simp add: SUPPORTED_DRUGS_def)
  have p: "''URM'' \<in> set [''PM'', ''IM'', ''NM'', ''RM'', ''URM'']"
    by simp
  show ?thesis
    using d p rule_dispatch_defined [OF d p] by blast
qed

section \<open>Grouping by gene\<close>

lemma groupLoop_lookup:
  "groupLoop acc vs = Inr geneGroups \<Longrightarrow>
   (case map_of geneGroups k of None \<Rightarrow> [] | Some x \<Rightarrow> x) =
   (case map_of acc k of None \<Rightarrow> [] | Some x \<Rightarrow> x) @ filter (\<lambda>v. toStr (gene v) = k) vs"
proof (induction vs arbitrary: acc)
  case Nil
  then show ?case by simp
next
  case (Cons v vs)
  from Cons.prems obtain acc' where step: "groupStep acc v = Inr acc'"
    and rest: "groupLoop acc' vs = Inr geneGroups"
    by (auto split: sum.splits)
  from step have acc': "acc' = AList.update (toStr (gene v))
      ((case map_of acc (toStr (gene v)) of None \<Rightarrow> [] | Some g \<Rightarrow> g) @ [v]) acc"
    by (simp add: groupStep_def Let_def split: if_splits)
  show ?case
    using Cons.IH [OF rest]
    by (simp add: acc' update_conv')
qed

lemma groupVariantsByGene_lookup:
  "groupVariantsByGene vs = Inr geneGroups \<Longrightarrow>
   (case map_of geneGroups k of None \<Rightarrow> [] | Some x \<Rightarrow> x) = filter (\<lambda>v. toStr (gene v) = k) vs"
  using groupLoop_lookup [of "[]" vs geneGroups k]
  by (simp add: groupVariantsByGene_def)

lemma groupLoop_raises:
  "(\<exists>v \<in> set vs. toStr (gene v) \<in> set objectPrototypeKeys) \<longleftrightarrow> groupLoop acc vs = Inl TypeError"
  by (induction vs arbitrary: acc) (auto simp: groupStep_def Let_def split: sum.splits)

lemma groupVariantsByGene_raises:
  "groupVariantsByGene vs = Inl TypeError
   \<longleftrightarrow> (\<exists>v \<in> set vs. toStr (gene v) \<in> set objectPrototypeKeys)"
  using groupLoop_raises [of vs "[]"] by (simp add: groupVariantsByGene_def)

section \<open>The Codeine scenario\<close>







section \<open>One entry per requested drug\<close>

lemma predictRisks_single:
  assumes "groupVariantsByGene vs = Inr geneGroups"
    and "predictDrug geneGroups n = Inr (Some e)"
  shows "predictRisks vs [n] = Inr [e]"
  using assms by (simp add: predictRisks_def)

lemma predictRisks_one_entry_per_drug:
  assumes "groupVariantsByGene vs = Inr geneGroups"
  shows "\<exists>results. predictRisks vs drugs = Inr results
           \<and> length results = length drugs
           \<and> (\<forall>i < length drugs.
                 (normalizeDrugName (drugs ! i) = None \<longrightarrow>
                    results ! i = Unsupported
                      \<lparr>errorDrug = drugs ! i, error = ''Unsupported drug: '' @ drugs ! i,
                       errorRisk = ''Unknown'', errorSeverity = ''Unknown'',
                       errorConfidence = 0\<rparr>)
                 \<and> (\<forall>d. normalizeDrugName (drugs ! i) = Some d \<longrightarrow>
                        (\<exists>a. results ! i = Analysed a \<and> drug a = d))
                 \<and> predictRisks vs [drugs ! i] = Inr [results ! i])"
proof -
  from predictRisks_results [OF assms, of drugs]
  obtain results where res: "predictRisks vs drugs = Inr results"
    and len: "length results = length drugs"
    and each: "\<forall>i < length drugs. predictDrug geneGroups (drugs ! i) = Inr (Some (results ! i))"
    by blast
  have "(normalizeDrugName (drugs ! i) = None \<longrightarrow>
            results ! i = Unsupported
              \<lparr>errorDrug = drugs ! i, error = ''Unsupported drug: '' @ drugs ! i,
               errorRisk = ''Unknown'', errorSeverity = ''Unknown'', errorConfidence = 0\<rparr>)
         \<and> (\<forall>d. normalizeDrugName (drugs ! i) = Some d \<longrightarrow>
                (\<exists>a. results ! i = Analysed a \<and> drug a = d))
         \<and> predictRisks vs [drugs ! i] = Inr [results ! i]"
    if i: "i < length drugs" for i
  proof -
    from each i have entry: "predictDrug geneGroups (drugs ! i) = Inr (Some (results ! i))"
      by blast
    have unsupported: "results ! i = Unsupported
          \<lparr>errorDrug = drugs ! i, error = ''Unsupported drug: '' @ drugs ! i,
           errorRisk = ''Unknown'', errorSeverity = ''Unknown'', errorConfidence = 0\<rparr>"
      if "normalizeDrugName (drugs ! i) = None"
      using predictDrug_unsupported [OF that, of geneGroups] entry by simp
    have supported: "\<exists>a. results ! i = Analysed a \<and> drug a = d"
      if "normalizeDrugName (drugs ! i) = Some d" for d
      using predictDrug_supported [OF that, of geneGroups] entry by auto
    from unsupported supported predictRisks_single [OF assms entry] show ?thesis
      by blast
  qed
  with res len show ?thesis by blast
qed

text \<open>
  C4. \<open>predictRisks\<close> first groups the variants by gene in a plain object. A variant
  whose gene symbol names a property that every object inherits makes the grouping raise
  a TypeError, so the call returns no entry at all, not even the error-marked entry for
  an unsupported drug. The file below passes the validator; its record has a known
  identifier and the INFO tag \<open>GENE=constructor\<close>, the parser keeps it with that gene,
  and the request for Aspirin ends in the TypeError. For every other variant list
  \<open>predictRisks_one_entry_per_drug\<close> shows what the claim says.
\<close>

theorem predictRisks_raises_on_inherited_gene:
  "valid (validateVCF
     (''##fileformat=VCFv4.2'' @ [CHR 0x0A]
      @ ''#CHROM'' @ [CHR 0x09] @ ''POS'' @ [CHR 0x09] @ ''ID'' @ [CHR 0x09] @ ''REF''
      @ [CHR 0x09] @ ''ALT'' @ [CHR 0x09] @ ''QUAL'' @ [CHR 0x09] @ ''FILTER'' @ [CHR 0x09]
      @ ''INFO'' @ [CHR 0x09] @ ''FORMAT'' @ [CHR 0x09] @ ''SAMPLE'' @ [CHR 0x0A]
      @ ''22'' @ [CHR 0x09] @ ''42524947'' @ [CHR 0x09] @ ''rs3892097'' @ [CHR 0x09] @ ''C''
      @ [CHR 0x09] @ ''T'' @ [CHR 0x09] @ ''.'' @ [CHR 0x09] @ ''PASS'' @ [CHR 0x09]
      @ ''GENE=constructor'' @ [CHR 0x09] @ ''GT'' @ [CHR 0x09] @ ''1/1''))
   \<and> map gene (parsedVariants (parseVCF
     (''##fileformat=VCFv4.2'' @ [CHR 0x0A]
      @ ''#CHROM'' @ [CHR 0x09] @ ''POS'' @ [CHR 0x09] @ ''ID'' @ [CHR 0x09] @ ''REF''
      @ [CHR 0x09] @ ''ALT'' @ [CHR 0x09] @ ''QUAL'' @ [CHR 0x09] @ ''FILTER'' @ [CHR 0x09]
      @ ''INFO'' @ [CHR 0x09] @ ''FORMAT'' @ [CHR 0x09] @ ''SAMPLE'' @ [CHR 0x0A]
      @ ''22'' @ [CHR 0x09] @ ''42524947'' @ [CHR 0x09] @ ''rs3892097'' @ [CHR 0x09] @ ''C''
      @ [CHR 0x09] @ ''T'' @ [CHR 0x09] @ ''.'' @ [CHR 0x09] @ ''PASS'' @ [CHR 0x09]
      @ ''GENE=constructor'' @ [CHR 0x09] @ ''GT'' @ [CHR 0x09] @ ''1/1'')))
     = [Str ''constructor'']
   \<and> normalizeDrugName ''Aspirin'' = None
   \<and> predictRisks (parsedVariants (parseVCF
     (''##fileformat=VCFv4.2'' @ [CHR 0x0A]
      @ ''#CHROM'' @ [CHR 0x09] @ ''POS'' @ [CHR 0x09] @ ''ID'' @ [CHR 0x09] @ ''REF''
      @ [CHR 0x09] @ ''ALT'' @ [CHR 0x09] @ ''QUAL'' @ [CHR 0x09] @ ''FILTER'' @ [CHR 0x09]
      @ ''INFO'' @ [CHR 0x09] @ ''FORMAT'' @ [CHR 0x09] @ ''SAMPLE'' @ [CHR 0x0A]
      @ ''22'' @ [CHR 0x09] @ ''42524947'' @ [CHR 0x09] @ ''rs3892097'' @ [CHR 0x09] @ ''C''
      @ [CHR 0x09] @ ''T'' @ [CHR 0x09] @ ''.'' @ [CHR 0x09] @ ''PASS'' @ [CHR 0x09]
      @ ''GENE=constructor'' @ [CHR 0x09] @ ''GT'' @ [CHR 0x09] @ ''1/1''))) [''Aspirin'']
     = Inl TypeError"
  by code_simp

section \<open>The allele resolver with two or more variants\<close>

text \<open>
  C5, as stated, fails: with a heterozygous first variant the resolver takes the second
  variant's star allele only when it has one. The two records below come out of the
  parser (the second has a GENE tag, no STAR tag and an unknown identifier, hence no
  star allele); the resolver answers \<open>*1\<close> and \<open>*4\<close>, the star allele of the first
  variant.
\<close>

theorem compound_heterozygous_counterexample:
  "extractVariant
     [''22'', ''42524947'', ''rs3892097'', ''C'', ''T'', ''.'', ''PASS'', ''.'', ''GT'', ''0/1'']
     = Some \<lparr>chromosome = ''22'', position = ''42524947'', rsid = Str ''rs3892097'',
             reference = ''C'', alternate = ''T'', quality = None, filterStatus = ''PASS'',
             gene = Str ''CYP2D6'', starAllele = Str ''*4'', info = [],
             zygosity = Heterozygous\<rparr>
   \<and> extractVariant
     [''22'', ''42525000'', ''.'', ''G'', ''A'', ''.'', ''PASS'', ''GENE=CYP2D6'', ''GT'', ''0/1'']
     = Some \<lparr>chromosome = ''22'', position = ''42525000'', rsid = Str ''.'',
             reference = ''G'', alternate = ''A'', quality = None, filterStatus = ''PASS'',
             gene = Str ''CYP2D6'', starAllele = Null, info = [(''GENE'', Str ''CYP2D6'')],
             zygosity = Heterozygous\<rparr>
   \<and> allele2 (determineAlleles ''CYP2D6''
        [\<lparr>chromosome = ''22'', position = ''42524947'', rsid = Str ''rs3892097'',
          reference = ''C'', alternate = ''T'', quality = None, filterStatus = ''PASS'',
          gene = Str ''CYP2D6'', starAllele = Str ''*4'', info = [],
          zygosity = Heterozygous\<rparr>,
         \<lparr>chromosome = ''22'', position = ''42525000'', rsid = Str ''.'',
          reference = ''G'', alternate = ''A'', quality = None, filterStatus = ''PASS'',
          gene = Str ''CYP2D6'', starAllele = Null, info = [(''GENE'', Str ''CYP2D6'')],
          zygosity = Heterozygous\<rparr>])
     = Str ''*4''
   \<and> Str ''*4'' \<noteq> starAllele
         \<lparr>chromosome = ''22'', position = ''42525000'', rsid = Str ''.'',
          reference = ''G'', alternate = ''A'', quality = None, filterStatus = ''PASS'',
          gene = Str ''CYP2D6'', starAllele = Null, info = [(''GENE'', Str ''CYP2D6'')],
          zygosity = Heterozygous\<rparr>"
  by (simp add: extractVariant_def parseInfo_def parseField_def setProp_def trim_def
      isWhiteSpace_def getProp_def jsOr_def RSID_MAP_def Let_def SUPPORTED_GENES_def
      determineZygosity_def determineAlleles_def defaultAlleleOf_def DEFAULT_ALLELES_def
      objectPrototypeKeys_def)

text \<open>
  C5, amended. For every gene and every variant list of at least two variants whose
  first variant is Heterozygous, allele 1 is the gene's default allele and allele 2 is
  the second variant's star allele when it has one, else the first variant's star allele
  when it has one, else the default allele. The variants after the second are ignored.
\<close>

theorem compound_heterozygous_alleles:
  assumes "zygosity v1 = Heterozygous"
  shows "allele1 (determineAlleles g (v1 # v2 # rest)) = defaultAlleleOf g
         \<and> allele2 (determineAlleles g (v1 # v2 # rest)) =
             (if truthy (starAllele v2) then starAllele v2
              else if truthy (starAllele v1) then starAllele v1
              else defaultAlleleOf g)
         \<and> determineAlleles g (v1 # v2 # rest) = determineAlleles g [v1, v2]"
  using assms by (simp add: determineAlleles_def Let_def jsOr_def)

theorem compound_heterozygous_alleles_witness:
  "zygosity
     \<lparr>chromosome = ''10'', position = ''94781859'', rsid = Str ''rs4244285'',
      reference = ''G'', alternate = ''A'', quality = None, filterStatus = ''PASS'',
      gene = Str ''CYP2C19'', starAllele = Str ''*2'', info = [],
      zygosity = Heterozygous\<rparr> = Heterozygous
   \<and> determineAlleles ''CYP2C19''
        [\<lparr>chromosome = ''10'', position = ''94781859'', rsid = Str ''rs4244285'',
          reference = ''G'', alternate = ''A'', quality = None, filterStatus = ''PASS'',
          gene = Str ''CYP2C19'', starAllele = Str ''*2'', info = [],
          zygosity = Heterozygous\<rparr>,
         \<lparr>chromosome = ''10'', position = ''94762706'', rsid = Str ''rs12248560'',
          reference = ''C'', alternate = ''T'', quality = None, filterStatus = ''PASS'',
          gene = Str ''CYP2C19'', starAllele = Str ''*17'', info = [],
          zygosity = Heterozygous\<rparr>,
         \<lparr>chromosome = ''10'', position = ''94780653'', rsid = Str ''rs4986893'',
          reference = ''G'', alternate = ''A'', quality = None, filterStatus = ''PASS'',
          gene = Str ''CYP2C19'', starAllele = Str ''*3'', info = [],
          zygosity = HomozygousAlternate\<rparr>]
     = \<lparr>allele1 = Str ''*1'', allele2 = Str ''*17''\<rparr>"
proof -
  define v1 where "v1 =
     \<lparr>chromosome = ''10'', position = ''94781859'', rsid = Str ''rs4244285'',
      reference = ''G'', alternate = ''A'', quality = None, filterStatus = ''PASS'',
      gene = Str ''CYP2C19'', starAllele = Str ''*2'', info = [],
      zygosity = Heterozygous\<rparr>"
  define v2 where "v2 =
     \<lparr>chromosome = ''10'', position = ''94762706'', rsid = Str ''rs12248560'',
      reference = ''C'', alternate = ''T'', quality = None, filterStatus = ''PASS'',
      gene = Str ''CYP2C19'', starAllele = Str ''*17'', info = [],
      zygosity = Heterozygous\<rparr>"
  define v3 where "v3 =
     \<lparr>chromosome = ''10'', position = ''94780653'', rsid = Str ''rs4986893'',
      reference = ''G'', alternate = ''A'', quality = None, filterStatus = ''PASS'',
      gene = Str ''CYP2C19'', starAllele = Str ''*3'', info = [],
      zygosity = HomozygousAlternate\<rparr>"
  have het: "zygosity v1 = Heterozygous"
    by (simp add: v1_def)
  have default: "defaultAlleleOf ''CYP2C19'' = Str ''*1''"
    by (simp add: defaultAlleleOf_def DEFAULT_ALLELES_def)
  have star: "starAllele v2 = Str ''*17''"
    by (simp add: v2_def)
  note resolved = compound_heterozygous_alleles [OF het, of "''CYP2C19''" v2 "[v3]"]
  have "allele1 (determineAlleles ''CYP2C19'' [v1, v2, v3]) = Str ''*1''"
    using resolved [THEN conjunct1] default by simp
  moreover have "allele2 (determineAlleles ''CYP2C19'' [v1, v2, v3]) = Str ''*17''"
    using resolved [THEN conjunct2, THEN conjunct1] star by simp
  ultimately
  have "determineAlleles ''CYP2C19'' [v1, v2, v3] = \<lparr>allele1 = Str ''*1'', allele2 = Str ''*17''\<rparr>"
    by (cases "determineAlleles ''CYP2C19'' [v1, v2, v3]") simp
  with het show ?thesis
    unfolding v1_def v2_def v3_def by blast
qed

section \<open>Relevance of a record\<close>

text \<open>
  A data line of at least 8 columns adds to the variants exactly what \<open>extractVariant\<close>
  returns for its columns.
\<close>

lemma startsWith_hash:
  "startsWith line (CHR ''#'' # p) \<Longrightarrow> startsWith line ''#''"
  by (cases line) (simp_all add: startsWith_def)

lemma parseLine_data_line:
  assumes "\<not> startsWith line ''#''" and "8 \<le> length (splitOn (CHR 0x09) line)"
  shows "parsedVariants (parseLine st line) =
           parsedVariants st @
           (case extractVariant (splitOn (CHR 0x09) line) of None \<Rightarrow> [] | Some v \<Rightarrow> [v])"
proof -
  have "\<not> startsWith line ''##fileformat=''" and "\<not> startsWith line ''##source=''"
    using assms(1) startsWith_hash by blast+
  with assms show ?thesis
    by (simp add: parseLine_def Let_def split: option.split)
qed

text \<open>
  C6, as stated, fails: explicit gene and star-allele tags in INFO do not make a record
  relevant. The record below carries both tags, its gene is not supported and its
  identifier is not in the reference table; the extractor drops it.
\<close>

theorem explicit_tags_counterexample:
  "getProp (parseInfo ''GENE=ABCB1;STAR=*2'') ''GENE'' = Str ''ABCB1''
   \<and> getProp (parseInfo ''GENE=ABCB1;STAR=*2'') ''STAR'' = Str ''*2''
   \<and> extractVariant
        [''7'', ''87509329'', ''rs1045642'', ''A'', ''G'', ''.'', ''PASS'', ''GENE=ABCB1;STAR=*2'',
         ''GT'', ''0/1'']
       = None"
  by (simp add: extractVariant_def parseInfo_def parseField_def setProp_def trim_def
      isWhiteSpace_def getProp_def jsOr_def RSID_MAP_def Let_def SUPPORTED_GENES_def
      objectPrototypeKeys_def)

lemma rsid_map_genes:
  "map_of RSID_MAP k = Some (mg, ma) \<Longrightarrow> mg \<noteq> []"
  by (auto simp: RSID_MAP_def split: if_splits)

text \<open>
  C6, amended. Let the identifier of a record be its INFO tag RSID if it has one, else
  its ID column, and suppose it is not the name of a property that every object inherits.
  The extractor takes the record as relevant if and only if the identifier is a key of
  the reference table or the INFO tag GENE names a supported gene. (A record found in the
  reference table gets the table's gene, which is supported, unless a GENE tag overrides
  it; so the second case is the one where the resolved gene is supported.)
\<close>

theorem relevant_iff_identifier_or_supported_gene:
  assumes "toStr (jsOr (jsOr (getProp (parseInfo (cols ! 7)) ''RSID'') (Str (cols ! 2))) Null)
           \<notin> set objectPrototypeKeys"
  shows "extractVariant cols \<noteq> None \<longleftrightarrow>
           (truthy (jsOr (jsOr (getProp (parseInfo (cols ! 7)) ''RSID'') (Str (cols ! 2))) Null)
            \<and> map_of RSID_MAP
                 (toStr (jsOr (jsOr (getProp (parseInfo (cols ! 7)) ''RSID'') (Str (cols ! 2))) Null))
                \<noteq> None)
           \<or> (\<exists>s. getProp (parseInfo (cols ! 7)) ''GENE'' = Str s \<and> s \<in> set SUPPORTED_GENES)"
proof -
  let ?rsid0 = "jsOr (jsOr (getProp (parseInfo (cols ! 7)) ''RSID'') (Str (cols ! 2))) Null"
  let ?tag = "getProp (parseInfo (cols ! 7)) ''GENE''"
  have supported: "(truthy (jsOr ?tag Null)
        \<and> (case jsOr ?tag Null of Str s \<Rightarrow> s \<in> set SUPPORTED_GENES | _ \<Rightarrow> False))
      \<longleftrightarrow> (\<exists>s. ?tag = Str s \<and> s \<in> set SUPPORTED_GENES)"
    by (cases ?tag) (auto simp: jsOr_def SUPPORTED_GENES_def)
  show ?thesis
  proof (cases "truthy ?rsid0")
    case notEmpty: True
    show ?thesis
    proof (cases "map_of RSID_MAP (toStr ?rsid0)")
      case None
      with notEmpty assms have "extractVariant cols \<noteq> None \<longleftrightarrow>
          (truthy (jsOr ?tag Null)
           \<and> (case jsOr ?tag Null of Str s \<Rightarrow> s \<in> set SUPPORTED_GENES | _ \<Rightarrow> False))"
        by (auto simp: extractVariant_def Let_def)
      with None supported show ?thesis
        by simp
    next
      case (Some m)
      obtain mg ma where m: "m = (mg, ma)"
        by (cases m)
      from Some m have "mg \<noteq> []"
        using rsid_map_genes by blast
      then have "truthy (jsOr (jsOr ?tag Null) (Str mg))"
        by (simp add: jsOr_def)
      with notEmpty Some m have "extractVariant cols \<noteq> None"
        by (simp add: extractVariant_def Let_def)
      with notEmpty Some show ?thesis
        by simp
    qed
  next
    case False
    then have "extractVariant cols \<noteq> None \<longleftrightarrow>
        (truthy (jsOr ?tag Null)
         \<and> (case jsOr ?tag Null of Str s \<Rightarrow> s \<in> set SUPPORTED_GENES | _ \<Rightarrow> False))"
      by (auto simp: extractVariant_def Let_def)
    with False supported show ?thesis
      by simp
  qed
qed

theorem relevant_iff_identifier_or_supported_gene_witness:
  "toStr (jsOr (jsOr (getProp (parseInfo ''GENE=TPMT'') ''RSID'') (Str ''rs0'')) Null)
     \<notin> set objectPrototypeKeys
   \<and> map_of RSID_MAP ''rs0'' = None
   \<and> getProp (parseInfo ''GENE=TPMT'') ''GENE'' = Str ''TPMT''
   \<and> ''TPMT'' \<in> set SUPPORTED_GENES
   \<and> extractVariant [''6'', ''18130918'', ''rs0'', ''T'', ''C'', ''.'', ''PASS'', ''GENE=TPMT'']
       \<noteq> None"
proof -
  let ?cols = "[''6'', ''18130918'', ''rs0'', ''T'', ''C'', ''.'', ''PASS'', ''GENE=TPMT'']"
  have info: "parseInfo ''GENE=TPMT'' = [(''GENE'', Str ''TPMT'')]"
    by (simp add: parseInfo_def parseField_def setProp_def trim_def isWhiteSpace_def)
  have rsid0: "jsOr (jsOr (getProp (parseInfo (?cols ! 7)) ''RSID'') (Str (?cols ! 2))) Null
      = Str ''rs0''"
    by (simp add: info getProp_def jsOr_def)
  have ok: "toStr (jsOr (jsOr (getProp (parseInfo (?cols ! 7)) ''RSID'') (Str (?cols ! 2))) Null)
      \<notin> set objectPrototypeKeys"
    unfolding rsid0 by (simp add: objectPrototypeKeys_def)
  have unknown: "map_of RSID_MAP ''rs0'' = None"
    by (simp add: RSID_MAP_def)
  have tag: "getProp (parseInfo (?cols ! 7)) ''GENE'' = Str ''TPMT''"
    by (simp add: info getProp_def)
  have sup: "''TPMT'' \<in> set SUPPORTED_GENES"
    by (simp add: SUPPORTED_GENES_def)
  from tag sup have "\<exists>s. getProp (parseInfo (?cols ! 7)) ''GENE'' = Str s \<and> s \<in> set SUPPORTED_GENES"
    by blast
  with relevant_iff_identifier_or_supported_gene [OF ok]
  have "extractVariant ?cols \<noteq> None"
    by blast
  with ok unknown tag sup show ?thesis
    by simp
qed

section \<open>Zygosity\<close>

lemma splitOn_no_separator: "c \<notin> set s \<Longrightarrow> splitOn c s = [s]"
  by (induction s) auto

lemma splitOn_first_separator:
  "c \<notin> set a \<Longrightarrow> splitOn c (a @ c # b) = a # splitOn c b"
  by (induction a) auto

lemma determineZygosity_two_parts:
  assumes "length cols = 10" and "cols ! 8 = ''GT''" and "cols ! 9 = a @ sep # b"
    and "sep = CHR ''/'' \<or> sep = CHR ''|''"
    and "set (a @ b) \<inter> {CHR '':'', CHR ''/'', CHR ''|''} = {}"
  shows "determineZygosity cols =
           (if a = b then (if a = ''0'' then HomozygousReference else HomozygousAlternate)
            else Heterozygous)"
proof -
  let ?gt = "a @ sep # b"
  have noColon: "CHR '':'' \<notin> set ?gt"
    using assms(4,5) by auto
  have sample: "splitOn (CHR '':'') ?gt = [?gt]"
    using noColon by (rule splitOn_no_separator)
  have separator: "(if CHR ''/'' \<in> set ?gt then CHR ''/'' else CHR ''|'') = sep"
    using assms(4,5) by auto
  have "sep \<notin> set a" and "sep \<notin> set b"
    using assms(4,5) by auto
  then have parts: "splitOn sep ?gt = [a, b]"
    by (simp add: splitOn_first_separator splitOn_no_separator)
  have format: "splitOn (CHR '':'') (cols ! 8) = [''GT'']"
    by (simp add: assms(2))
  have fields: "splitOn (CHR '':'') (cols ! 9) = [?gt]"
    using sample by (simp only: assms(3))
  have gt: "[?gt] ! 0 = ?gt"
    by simp
  have nonEmpty: "cols ! 8 \<noteq> []" "cols ! 9 \<noteq> []"
    by (simp_all add: assms(2,3))
  have "determineZygosity cols =
      (let parts = splitOn (if CHR ''/'' \<in> set ?gt then CHR ''/'' else CHR ''|'') ?gt
       in if length parts \<noteq> 2 then Unknown
          else if parts ! 0 = parts ! 1
          then (if parts ! 0 = ''0'' then HomozygousReference else HomozygousAlternate)
          else Heterozygous)"
    unfolding determineZygosity_def Let_def format fields gt
    using assms(1) nonEmpty by simp
  also have "\<dots> =
      (if a = b then (if a = ''0'' then HomozygousReference else HomozygousAlternate)
       else Heterozygous)"
    unfolding separator parts by (simp add: Let_def)
  finally show ?thesis .
qed

text \<open>
  C7. A genotype whose two parts are not numbers is not answered with Unknown: for the
  missing call \<open>./.\<close> the two parts are equal and are not \<open>0\<close>, and the answer is
  Homozygous Alternate. (A single \<open>.\<close> has one part and is answered with Unknown; for two
  parts free of separators \<open>determineZygosity_two_parts\<close> gives the answer, which is
  what the claim says when the parts are haplotype indices.)
\<close>

theorem determineZygosity_missing_call:
  "determineZygosity
     [''22'', ''42524947'', ''rs3892097'', ''C'', ''T'', ''.'', ''PASS'', ''.'', ''GT'', ''./.'']
     = HomozygousAlternate
   \<and> determineZygosity
     [''22'', ''42524947'', ''rs3892097'', ''C'', ''T'', ''.'', ''PASS'', ''.'', ''GT'', ''.'']
     = Unknown"
  by (simp add: determineZygosity_def Let_def)

section \<open>The validator\<close>

text \<open>
  C8, as stated, fails on the empty input: it has no file-format line, no \<open>#CHROM\<close>
  line and no data line, and the validator reports the empty file only.
\<close>

theorem validateVCF_empty_counterexample:
  "errors (validateVCF []) = [''Empty VCF file'']
   \<and> \<not> list_ex (\<lambda>l. startsWith l ''##fileformat=VCF'') (nonBlankLines [])
   \<and> \<not> list_ex (\<lambda>l. startsWith l ''#CHROM'') (nonBlankLines [])
   \<and> \<not> list_ex (\<lambda>l. \<not> startsWith l ''#'') (nonBlankLines [])"
  by (simp add: validateVCF_def nonBlankLines_def trim_def)

text \<open>
  C8, amended. When the input has no line with anything but white space, the error list
  is the single entry \<open>Empty VCF file\<close> and the other checks are not reported. Otherwise
  the validator does not stop at the first failure: the error list has, in this order,
  one entry for each failed check among: a line beginning with \<open>##fileformat=VCF\<close>
  exists, a line beginning with \<open>#CHROM\<close> exists, a line not beginning with \<open>#\<close>
  exists. In both cases \<open>valid\<close> is true exactly when the error list is empty.
\<close>

theorem validateVCF_reports:
  "(nonBlankLines content = [] \<longrightarrow> errors (validateVCF content) = [''Empty VCF file''])
   \<and> (nonBlankLines content \<noteq> [] \<longrightarrow>
        errors (validateVCF content) =
          (if list_ex (\<lambda>l. startsWith l ''##fileformat=VCF'') (nonBlankLines content) then []
           else [''Missing ##fileformat=VCF header. File may not be a valid VCF v4.2 file.''])
          @ (if list_ex (\<lambda>l. startsWith l ''#CHROM'') (nonBlankLines content) then []
             else [''Missing #CHROM header line''])
          @ (if list_ex (\<lambda>l. \<not> startsWith l ''#'') (nonBlankLines content) then []
             else [''No variant data found in VCF file'']))
   \<and> valid (validateVCF content) = (errors (validateVCF content) = [])"
proof -
  have found: "(find P xs = None) = (\<not> list_ex P xs)" for P :: "string \<Rightarrow> bool" and xs
    by (auto simp: find_None_iff list_ex_iff)
  have none: "(filter P xs = []) = (\<not> list_ex P xs)" for P :: "string \<Rightarrow> bool" and xs
    by (simp add: filter_empty_conv list_ex_iff)
  show ?thesis
    by (simp add: validateVCF_def Let_def found none)
qed

theorem validateVCF_reports_witness:
  "nonBlankLines ''#CHROM'' \<noteq> []
   \<and> errors (validateVCF ''#CHROM'') =
       [''Missing ##fileformat=VCF header. File may not be a valid VCF v4.2 file.'',
        ''No variant data found in VCF file'']
   \<and> valid (validateVCF ''#CHROM'') = False"
proof -
  have lines: "nonBlankLines ''#CHROM'' = [''#CHROM'']"
    by (simp add: nonBlankLines_def trim_def isWhiteSpace_def)
  have nonEmpty: "nonBlankLines ''#CHROM'' \<noteq> []"
    by (simp add: lines)
  from validateVCF_reports [of "''#CHROM''"] nonEmpty
  have "errors (validateVCF ''#CHROM'') =
          (if list_ex (\<lambda>l. startsWith l ''##fileformat=VCF'') (nonBlankLines ''#CHROM'') then []
           else [''Missing ##fileformat=VCF header. File may not be a valid VCF v4.2 file.''])
          @ (if list_ex (\<lambda>l. startsWith l ''#CHROM'') (nonBlankLines ''#CHROM'') then []
             else [''Missing #CHROM header line''])
          @ (if list_ex (\<lambda>l. \<not> startsWith l ''#'') (nonBlankLines ''#CHROM'') then []
             else [''No variant data found in VCF file''])"
    and v: "valid (validateVCF ''#CHROM'') = (errors (validateVCF ''#CHROM'') = [])"
    by blast+
  then have e: "errors (validateVCF ''#CHROM'') =
       [''Missing ##fileformat=VCF header. File may not be a valid VCF v4.2 file.'',
        ''No variant data found in VCF file'']"
    by (simp add: lines startsWith_def)
  with v nonEmpty show ?thesis
    by simp
qed

section \<open>Classification of a variant\<close>

text \<open>
  C10. For a star allele that is a string, the classification is \<open>gain-of-function\<close>
  only if the allele contains \<open>xN\<close>. The allele \<open>*17\<close> is classified
  \<open>decreased-function\<close>: it is in the list of the decreased-function test, which comes
  before the gain-of-function test that also names it.
\<close>

theorem gain_of_function_only_with_xN:
  "(getVariantClassification (Str a) = Inr ''gain-of-function'' \<longrightarrow> includesStr a ''xN'')
   \<and> getVariantClassification (Str ''*17'') = Inr ''decreased-function''
   \<and> getVariantClassification (Str ''*17'') \<noteq> Inr ''gain-of-function''"
proof -
  have only: "includesStr a ''xN''" if "getVariantClassification (Str a) = Inr ''gain-of-function''"
  proof (rule ccontr)
    assume no: "\<not> includesStr a ''xN''"
    have "getVariantClassification (Str a) \<in>
        {Inr ''unknown significance'', Inr ''loss-of-function'', Inr ''decreased-function'',
         Inr ''functional''}"
    proof (cases "a = ''*17''")
      case True
      then show ?thesis
        by (simp add: getVariantClassification_def startsWith_def)
    next
      case False
      with no show ?thesis
        by (simp add: getVariantClassification_def)
    qed
    with that show False
      by simp
  qed
  have listed: "getVariantClassification (Str ''*17'') = Inr ''decreased-function''"
    by (simp add: getVariantClassification_def startsWith_def)
  from only listed show ?thesis
    by simp
qed

theorem gain_of_function_only_with_xN_witness:
  "getVariantClassification (Str ''*1xN'') = Inr ''gain-of-function''
   \<and> includesStr ''*1xN'' ''xN''"
proof -
  have gain: "getVariantClassification (Str ''*1xN'') = Inr ''gain-of-function''"
    by (simp add: getVariantClassification_def startsWith_def)
  with gain_of_function_only_with_xN [of "''*1xN''"] show ?thesis
    by blast
qed

end
